theory Spec2Isabelle
  imports Main "HOL-Library.Char_ord" "HOL-Library.List_Lexorder"
begin

section \<open>Calendar timestamps\<close>

text \<open>
  A capture timestamp is a Python \<^verbatim>\<open>datetime.datetime\<close> without time zone and with
  microsecond 0. Its constructor raises \<^verbatim>\<open>ValueError\<close> on an out-of-range field; the
  model returns \<open>None\<close> there. Years run from 1 (\<^verbatim>\<open>MINYEAR\<close>) to 9999 (\<^verbatim>\<open>MAXYEAR\<close>),
  days are checked against the proleptic Gregorian calendar.
\<close>

record datetime =
  year :: nat
  month :: nat
  day :: nat
  hour :: nat
  minute :: nat
  second :: nat

definition is_leap :: "nat \<Rightarrow> bool" where
  "is_leap y = (y mod 4 = 0 \<and> (y mod 100 \<noteq> 0 \<or> y mod 400 = 0))"

definition days_in_month :: "nat \<Rightarrow> nat \<Rightarrow> nat" where
  "days_in_month y m =
     (if m = 2 then (if is_leap y then 29 else 28)
      else if m = 4 \<or> m = 6 \<or> m = 9 \<or> m = 11 then 30 else 31)"

definition datetime_new :: "nat \<Rightarrow> nat \<Rightarrow> nat \<Rightarrow> nat \<Rightarrow> nat \<Rightarrow> nat \<Rightarrow> datetime option" where
  "datetime_new y m d H M S =
     (if 1 \<le> y \<and> y \<le> 9999 \<and> 1 \<le> m \<and> m \<le> 12 \<and> 1 \<le> d \<and> d \<le> days_in_month y m
         \<and> H \<le> 23 \<and> M \<le> 59 \<and> S \<le> 59
      then Some \<lparr>year = y, month = m, day = d, hour = H, minute = M, second = S\<rparr>
      else None)"

text \<open>The values a \<^verbatim>\<open>datetime\<close> object can hold, and their chronological order.\<close>

definition valid_datetime :: "datetime \<Rightarrow> bool" where
  "valid_datetime t =
     (datetime_new (year t) (month t) (day t) (hour t) (minute t) (second t) = Some t)"

definition dt_before :: "datetime \<Rightarrow> datetime \<Rightarrow> bool" where
  "dt_before a b =
     (year a < year b \<or> (year a = year b \<and>
       (month a < month b \<or> (month a = month b \<and>
         (day a < day b \<or> (day a = day b \<and>
           (hour a < hour b \<or> (hour a = hour b \<and>
             (minute a < minute b \<or> (minute a = minute b \<and> second a < second b))))))))))"

section \<open>Strings\<close>

text \<open>
  Python strings are modelled as \<open>string\<close>, a character being a code point from 0 to
  255; the characters that matter to the program (digits, letters of the extensions,
  separators) are ASCII. Among these code points the digit class \<^verbatim>\<open>\d\<close> holds the ten
  ASCII digits only. \<^verbatim>\<open>s[i:j]\<close> with \<open>0 \<le> i \<le> j\<close> is \<open>slice i j s\<close>; slicing never raises.
\<close>

definition slice :: "nat \<Rightarrow> nat \<Rightarrow> 'a list \<Rightarrow> 'a list" where
  "slice i j s = take (j - i) (drop i s)"

definition is_digit :: "char \<Rightarrow> bool" where
  "is_digit c = (CHR ''0'' \<le> c \<and> c \<le> CHR ''9'')"

definition digit_val :: "char \<Rightarrow> nat" where
  "digit_val c = of_char c - 48"

text \<open>\<^verbatim>\<open>int(s)\<close> on a string of decimal digits.\<close>

definition int_of_digits :: "string \<Rightarrow> nat" where
  "int_of_digits s = foldl (\<lambda>a c. 10 * a + digit_val c) 0 s"

section \<open>Filename date parser\<close>

text \<open>
  \<^verbatim>\<open>re.search(r"(\d{8})_(\d{6})", filename)\<close> scans the start positions from left to right
  and returns the first position where the pattern matches; the pattern has one length
  (15 characters), so the match at a position is unique. \<open>match_a s\<close> says that the
  pattern matches at the beginning of \<open>s\<close>, and \<open>search_a\<close> returns the two groups of the
  leftmost match.
\<close>

definition match_a :: "string \<Rightarrow> bool" where
  "match_a s = (15 \<le> length s \<and> list_all is_digit (take 8 s) \<and> s ! 8 = CHR ''_''
                 \<and> list_all is_digit (slice 9 15 s))"

fun search_a :: "string \<Rightarrow> (string \<times> string) option" where
  "search_a [] = None"
| "search_a (c # cs) =
     (if match_a (c # cs) then Some (take 8 (c # cs), slice 9 15 (c # cs)) else search_a cs)"

text \<open>\<^verbatim>\<open>re.search(r"(\d{14})", filename)\<close>: the leftmost window of 14 digits.\<close>

definition match_b :: "string \<Rightarrow> bool" where
  "match_b s = (14 \<le> length s \<and> list_all is_digit (take 14 s))"

fun search_b :: "string \<Rightarrow> string option" where
  "search_b [] = None"
| "search_b (c # cs) = (if match_b (c # cs) then Some (take 14 (c # cs)) else search_b cs)"

text \<open>The bodies of the two \<^verbatim>\<open>try\<close> blocks: the fields are cut out and the constructor called.\<close>

definition fields_a :: "string \<times> string \<Rightarrow> datetime option" where
  "fields_a g = (case g of (part1, part2) \<Rightarrow>
     datetime_new (int_of_digits (slice 0 4 part1)) (int_of_digits (slice 4 6 part1))
       (int_of_digits (slice 6 8 part1)) (int_of_digits (slice 0 2 part2))
       (int_of_digits (slice 2 4 part2)) (int_of_digits (slice 4 6 part2)))"

definition fields_b :: "string \<Rightarrow> datetime option" where
  "fields_b digits =
     datetime_new (int_of_digits (slice 0 4 digits)) (int_of_digits (slice 4 6 digits))
       (int_of_digits (slice 6 8 digits)) (int_of_digits (slice 8 10 digits))
       (int_of_digits (slice 10 12 digits)) (int_of_digits (slice 12 14 digits))"

definition parse_date_from_filename :: "string \<Rightarrow> datetime option" where
  "parse_date_from_filename filename =
     (case (case search_a filename of None \<Rightarrow> None | Some g \<Rightarrow> fields_a g) of
        Some dt \<Rightarrow> Some dt
      | None \<Rightarrow> (case search_b filename of None \<Rightarrow> None | Some digits \<Rightarrow> fields_b digits))"


text \<open>
  Positions of matches, used to state what the parser returns: \<open>leftmost m s i\<close> says that
  \<open>i\<close> is the first position of \<open>s\<close> where \<open>m\<close> matches, and \<open>fields_at_a s i\<close>,
  \<open>fields_at_b s i\<close> build the timestamp from the digits of \<open>s\<close> that start at \<open>i\<close>.
\<close>

definition leftmost :: "(string \<Rightarrow> bool) \<Rightarrow> string \<Rightarrow> nat \<Rightarrow> bool" where
  "leftmost m s i = (m (drop i s) \<and> list_all (\<lambda>j. \<not> m (drop j s)) [0..<i])"

definition fields_at_a :: "string \<Rightarrow> nat \<Rightarrow> datetime option" where
  "fields_at_a s i =
     datetime_new (int_of_digits (slice i (i + 4) s)) (int_of_digits (slice (i + 4) (i + 6) s))
       (int_of_digits (slice (i + 6) (i + 8) s)) (int_of_digits (slice (i + 9) (i + 11) s))
       (int_of_digits (slice (i + 11) (i + 13) s)) (int_of_digits (slice (i + 13) (i + 15) s))"

definition fields_at_b :: "string \<Rightarrow> nat \<Rightarrow> datetime option" where
  "fields_at_b s i =
     datetime_new (int_of_digits (slice i (i + 4) s)) (int_of_digits (slice (i + 4) (i + 6) s))
       (int_of_digits (slice (i + 6) (i + 8) s)) (int_of_digits (slice (i + 8) (i + 10) s))
       (int_of_digits (slice (i + 10) (i + 12) s)) (int_of_digits (slice (i + 12) (i + 14) s))"

section \<open>Formatting timestamps\<close>

text \<open>
  \<^verbatim>\<open>str(n)\<close> for a natural number, and the fields of \<^verbatim>\<open>strftime\<close>, which CPython 3.7 to
  3.12 hands to the C library: \<^verbatim>\<open>%m %d %H %M %S\<close> are padded with zeros to two digits;
  \<^verbatim>\<open>%Y\<close> is the year as a plain decimal number, as on Linux with glibc, so year 999 is
  printed \<^verbatim>\<open>999\<close> and not \<^verbatim>\<open>0999\<close>.
\<close>

definition digit_char :: "nat \<Rightarrow> char" where
  "digit_char n = ''0123456789'' ! (n mod 10)"

function dec_str :: "nat \<Rightarrow> string" where
  "dec_str n = (if n < 10 then [digit_char n] else dec_str (n div 10) @ [digit_char (n mod 10)])"
  by pat_completeness auto
termination
  by (relation "measure id") auto

declare dec_str.simps [simp del]

definition zero_pad :: "nat \<Rightarrow> nat \<Rightarrow> string" where
  "zero_pad w n = replicate (w - length (dec_str n)) (CHR ''0'') @ dec_str n"

definition strftime_Y :: "datetime \<Rightarrow> string" where
  "strftime_Y t = dec_str (year t)"

definition strftime_name :: "datetime \<Rightarrow> string" where
  "strftime_name t =
     dec_str (year t) @ ''-'' @ zero_pad 2 (month t) @ ''-'' @ zero_pad 2 (day t) @ '' ''
       @ zero_pad 2 (hour t) @ ''.'' @ zero_pad 2 (minute t) @ ''.'' @ zero_pad 2 (second t)"

definition generate_new_file_name :: "datetime \<Rightarrow> string \<Rightarrow> string" where
  "generate_new_file_name date_obj file_ext = strftime_name date_obj @ file_ext"

section \<open>Parsing timestamps\<close>

text \<open>
  \<^verbatim>\<open>datetime.strptime(s, "%Y:%m:%d %H:%M:%S")\<close> and
  \<^verbatim>\<open>datetime.strptime(s, "%Y-%m-%d %H:%M:%S")\<close> are library code. The library turns the
  format into a regular expression, matches it at the start of the string, demands that
  the match ends where the string ends, converts the groups with \<^verbatim>\<open>int\<close> and calls the
  \<^verbatim>\<open>datetime\<close> constructor. The directives are
  \<^verbatim>\<open>%Y = \d\d\d\d\<close>, \<^verbatim>\<open>%m = 1[0-2]|0[1-9]|[1-9]\<close>,
  \<^verbatim>\<open>%d = 3[01]|[12]\d|0[1-9]|[1-9]| [1-9]\<close>, \<^verbatim>\<open>%H = 2[0-3]|[0-1]\d|\d\<close>,
  \<^verbatim>\<open>%M = [0-5]\d|\d\<close>, \<^verbatim>\<open>%S = 6[0-1]|[0-5]\d|\d\<close>, and a blank of the format is
  \<^verbatim>\<open>\s+\<close>. The model is a backtracking matcher in continuation style: an alternative
  is a list of character classes, a group tries its alternatives in order, and the rest
  of the pattern is the continuation. \<open>None\<close> is \<^verbatim>\<open>ValueError\<close>.
\<close>

definition cls :: "char \<Rightarrow> char \<Rightarrow> char \<Rightarrow> bool" where
  "cls lo hi c = (lo \<le> c \<and> c \<le> hi)"

definition is_space :: "char \<Rightarrow> bool" where
  "is_space c = (c \<in> set [CHR '' '', CHR 0x09, CHR 0x0A, CHR 0x0B, CHR 0x0C, CHR 0x0D,
                             CHR 0x1C, CHR 0x1D, CHR 0x1E, CHR 0x1F, CHR 0x85, CHR 0xA0])"

fun match_seq :: "(char \<Rightarrow> bool) list \<Rightarrow> string \<Rightarrow> (string \<times> string) option" where
  "match_seq [] s = Some ([], s)"
| "match_seq (p # ps) [] = None"
| "match_seq (p # ps) (c # cs) =
     (if p c then (case match_seq ps cs of None \<Rightarrow> None | Some (m, r) \<Rightarrow> Some (c # m, r))
      else None)"

fun match_alts ::
  "(char \<Rightarrow> bool) list list \<Rightarrow> (string \<Rightarrow> string \<Rightarrow> 'a option) \<Rightarrow> string \<Rightarrow> 'a option" where
  "match_alts [] k s = None"
| "match_alts (a # as) k s =
     (case match_seq a s of
        None \<Rightarrow> match_alts as k s
      | Some (m, r) \<Rightarrow> (case k m r of Some x \<Rightarrow> Some x | None \<Rightarrow> match_alts as k s))"

definition lit :: "char \<Rightarrow> (string \<Rightarrow> 'a option) \<Rightarrow> string \<Rightarrow> 'a option" where
  "lit c k s = (case s of [] \<Rightarrow> None | x # xs \<Rightarrow> if x = c then k xs else None)"

fun first_some :: "('a \<Rightarrow> 'b option) \<Rightarrow> 'a list \<Rightarrow> 'b option" where
  "first_some f [] = None"
| "first_some f (x # xs) = (case f x of Some y \<Rightarrow> Some y | None \<Rightarrow> first_some f xs)"

text \<open>\<^verbatim>\<open>\s+\<close> is greedy: the longest run of blanks first, then shorter ones, at least one.\<close>

definition match_spaces :: "(string \<Rightarrow> 'a option) \<Rightarrow> string \<Rightarrow> 'a option" where
  "match_spaces k s =
     first_some (\<lambda>j. k (drop j s)) (rev [1..<Suc (length (takeWhile is_space s))])"

definition alts_Y :: "(char \<Rightarrow> bool) list list" where
  "alts_Y = [[is_digit, is_digit, is_digit, is_digit]]"

definition alts_m :: "(char \<Rightarrow> bool) list list" where
  "alts_m = [[cls (CHR ''1'') (CHR ''1''), cls (CHR ''0'') (CHR ''2'')],
             [cls (CHR ''0'') (CHR ''0''), cls (CHR ''1'') (CHR ''9'')],
             [cls (CHR ''1'') (CHR ''9'')]]"

definition alts_d :: "(char \<Rightarrow> bool) list list" where
  "alts_d = [[cls (CHR ''3'') (CHR ''3''), cls (CHR ''0'') (CHR ''1'')],
             [cls (CHR ''1'') (CHR ''2''), is_digit],
             [cls (CHR ''0'') (CHR ''0''), cls (CHR ''1'') (CHR ''9'')],
             [cls (CHR ''1'') (CHR ''9'')],
             [cls (CHR '' '') (CHR '' ''), cls (CHR ''1'') (CHR ''9'')]]"

definition alts_H :: "(char \<Rightarrow> bool) list list" where
  "alts_H = [[cls (CHR ''2'') (CHR ''2''), cls (CHR ''0'') (CHR ''3'')],
             [cls (CHR ''0'') (CHR ''1''), is_digit],
             [is_digit]]"

definition alts_M :: "(char \<Rightarrow> bool) list list" where
  "alts_M = [[cls (CHR ''0'') (CHR ''5''), is_digit], [is_digit]]"

definition alts_S :: "(char \<Rightarrow> bool) list list" where
  "alts_S = [[cls (CHR ''6'') (CHR ''6''), cls (CHR ''0'') (CHR ''1'')],
             [cls (CHR ''0'') (CHR ''5''), is_digit],
             [is_digit]]"

text \<open>
  The regular expression of the format with date separator \<open>dsep\<close>; the result is the six
  groups and the unmatched rest of the string.
\<close>

definition strptime_regex ::
  "char \<Rightarrow> string \<Rightarrow> ((string \<times> string \<times> string \<times> string \<times> string \<times> string) \<times> string) option" where
  "strptime_regex dsep s =
     match_alts alts_Y (\<lambda>gY. lit dsep (
     match_alts alts_m (\<lambda>gm. lit dsep (
     match_alts alts_d (\<lambda>gd. match_spaces (
     match_alts alts_H (\<lambda>gH. lit (CHR '':'') (
     match_alts alts_M (\<lambda>gM. lit (CHR '':'') (
     match_alts alts_S (\<lambda>gS r. Some ((gY, gm, gd, gH, gM, gS), r)))))))))))) s"

text \<open>\<^verbatim>\<open>int(g)\<close> for a group: digits, after a possible leading blank (the day).\<close>

definition int_of_group :: "string \<Rightarrow> nat" where
  "int_of_group g = int_of_digits (dropWhile is_space g)"

definition strptime :: "char \<Rightarrow> string \<Rightarrow> datetime option" where
  "strptime dsep s =
     (case strptime_regex dsep s of
        None \<Rightarrow> None
      | Some ((gY, gm, gd, gH, gM, gS), r) \<Rightarrow>
          if r \<noteq> [] then None
          else datetime_new (int_of_group gY) (int_of_group gm) (int_of_group gd)
                 (int_of_group gH) (int_of_group gM) (int_of_group gS))"

text \<open>
  Lines 165 to 169 of the video reader: \<^verbatim>\<open>replace('Z', '')\<close>, \<^verbatim>\<open>replace('T', ' ')\<close>,
  \<^verbatim>\<open>[:19]\<close>, then \<^verbatim>\<open>strptime\<close>. Both replacements act on every occurrence.
\<close>

definition normalize_creation :: "string \<Rightarrow> string" where
  "normalize_creation creation_str =
     take 19 (map (\<lambda>c. if c = CHR ''T'' then CHR '' '' else c)
       (filter (\<lambda>c. c \<noteq> CHR ''Z'') creation_str))"

definition parse_creation_time :: "string \<Rightarrow> datetime option" where
  "parse_creation_time creation_str = strptime (CHR ''-'') (normalize_creation creation_str)"


section \<open>Paths and extensions\<close>

text \<open>
  \<^verbatim>\<open>os.path\<close> of POSIX. \<open>rfind c s\<close> is \<^verbatim>\<open>s.rfind(c)\<close>, with \<open>None\<close> for \<^verbatim>\<open>-1\<close>;
  \<^verbatim>\<open>basename(p)\<close> is \<^verbatim>\<open>p[p.rfind('/') + 1:]\<close>; \<^verbatim>\<open>splitext\<close> cuts at the last dot of the
  last component unless only dots precede it there; \<^verbatim>\<open>join(a, b)\<close> restarts at an
  absolute \<open>b\<close> and inserts the separator unless \<open>a\<close> is empty or ends with it.
\<close>

fun rfind :: "char \<Rightarrow> string \<Rightarrow> nat option" where
  "rfind c [] = None"
| "rfind c (x # xs) =
     (case rfind c xs of Some i \<Rightarrow> Some (Suc i) | None \<Rightarrow> if x = c then Some 0 else None)"

definition basename :: "string \<Rightarrow> string" where
  "basename p = (case rfind (CHR ''/'') p of None \<Rightarrow> p | Some i \<Rightarrow> drop (Suc i) p)"

definition splitext :: "string \<Rightarrow> string \<times> string" where
  "splitext p =
     (let filenameIndex = (case rfind (CHR ''/'') p of None \<Rightarrow> 0 | Some i \<Rightarrow> Suc i) in
      case rfind (CHR ''.'') p of
        None \<Rightarrow> (p, [])
      | Some dotIndex \<Rightarrow>
          if filenameIndex \<le> dotIndex
             \<and> list_ex (\<lambda>k. p ! k \<noteq> CHR ''.'') [filenameIndex..<dotIndex]
          then (take dotIndex p, drop dotIndex p)
          else (p, []))"

definition path_join :: "string \<Rightarrow> string \<Rightarrow> string" where
  "path_join a b =
     (if take 1 b = ''/'' then b
      else if a = [] \<or> last a = CHR ''/'' then a @ b
      else a @ ''/'' @ b)"

text \<open>
  \<^verbatim>\<open>str.lower\<close> on the code points 0 to 255 (the letters A to Z and the upper-case letters
  of Latin-1 move by 32, the others stay), \<^verbatim>\<open>str.endswith\<close>, and the two tuples of
  \<^verbatim>\<open>process_file\<close>.
\<close>

definition upper_letters :: string where
  "upper_letters = ''ABCDEFGHIJKLMNOPQRSTUVWXYZ''
     @ [CHR 0xC0, CHR 0xC1, CHR 0xC2, CHR 0xC3, CHR 0xC4, CHR 0xC5, CHR 0xC6, CHR 0xC7,
        CHR 0xC8, CHR 0xC9, CHR 0xCA, CHR 0xCB, CHR 0xCC, CHR 0xCD, CHR 0xCE, CHR 0xCF,
        CHR 0xD0, CHR 0xD1, CHR 0xD2, CHR 0xD3, CHR 0xD4, CHR 0xD5, CHR 0xD6,
        CHR 0xD8, CHR 0xD9, CHR 0xDA, CHR 0xDB, CHR 0xDC, CHR 0xDD, CHR 0xDE]"

definition lower_letters :: string where
  "lower_letters = ''abcdefghijklmnopqrstuvwxyz''
     @ [CHR 0xE0, CHR 0xE1, CHR 0xE2, CHR 0xE3, CHR 0xE4, CHR 0xE5, CHR 0xE6, CHR 0xE7,
        CHR 0xE8, CHR 0xE9, CHR 0xEA, CHR 0xEB, CHR 0xEC, CHR 0xED, CHR 0xEE, CHR 0xEF,
        CHR 0xF0, CHR 0xF1, CHR 0xF2, CHR 0xF3, CHR 0xF4, CHR 0xF5, CHR 0xF6,
        CHR 0xF8, CHR 0xF9, CHR 0xFA, CHR 0xFB, CHR 0xFC, CHR 0xFD, CHR 0xFE]"

definition lower_char :: "char \<Rightarrow> char" where
  "lower_char c =
     (case map_of (zip upper_letters lower_letters) c of Some d \<Rightarrow> d | None \<Rightarrow> c)"

definition lower :: "string \<Rightarrow> string" where
  "lower s = map lower_char s"

definition endswith :: "string \<Rightarrow> string \<Rightarrow> bool" where
  "endswith s suffix =
     (length suffix \<le> length s \<and> drop (length s - length suffix) s = suffix)"

definition image_exts :: "string list" where
  "image_exts = [''.jpg'', ''.jpeg'', ''.png'', ''.gif'', ''.heic'']"

definition video_exts :: "string list" where
  "video_exts = [''.mp4'', ''.mov'', ''.avi'', ''.mkv'']"

section \<open>The program and its collaborators\<close>

text \<open>
  The filesystem, the image library and the probe tool are collaborators. Their answers
  are the fields of a record \<open>sys\<close> over an arbitrary filesystem state \<open>'f\<close>, so every
  property below holds for every behaviour of the collaborators. A call that raises
  returns \<open>Inl\<close> with the exception; \<^verbatim>\<open>os.walk\<close> swallows the error of a directory it
  cannot list, which is \<open>None\<close> of \<open>os_scandir\<close>. \<open>pil_TAGS\<close> is the table
  \<^verbatim>\<open>PIL.ExifTags.TAGS\<close>.
\<close>

datatype exn = Lib_Error string | Value_Error | Type_Error

datatype exif_value = Exif_Str string | Exif_Other

datatype exif_read = Exif_Raise exn | Exif_None | Exif_Items "(nat \<times> exif_value) list"

datatype probe_json = Json_Raise exn | Json_Creation "string option"

datatype probe_run = Probe_Raise exn | Probe_Exit int probe_json

record 'f sys =
  os_path_exists :: "'f \<Rightarrow> string \<Rightarrow> bool"
  os_path_isfile :: "'f \<Rightarrow> string \<Rightarrow> bool"
  os_path_islink :: "'f \<Rightarrow> string \<Rightarrow> bool"
  os_scandir :: "'f \<Rightarrow> string \<Rightarrow> (string list \<times> string list) option"
  os_makedirs :: "'f \<Rightarrow> string \<Rightarrow> exn + 'f"
  shutil_move :: "'f \<Rightarrow> string \<Rightarrow> string \<Rightarrow> exn + 'f"
  image_getexif :: "'f \<Rightarrow> string \<Rightarrow> exif_read"
  run_ffprobe :: "'f \<Rightarrow> string \<Rightarrow> probe_run"
  pil_TAGS :: "nat \<Rightarrow> string option"

text \<open>
  The three configured folders, and the state of a run: the filesystem and the calls made
  so far, in order. \<open>Say\<close> is a printed line, \<open>Say_Error\<close> a printed line that ends with
  the text of an exception; the other calls are the effects on the collaborators.
\<close>

record config =
  source_folder :: string
  organized_folder :: string
  skipped_folder :: string

datatype call =
    Say string
  | Say_Error string exn
  | Image_Open string
  | Ffprobe_Run string
  | Make_Dirs string
  | Move_File string string

record 'f world =
  fsys :: 'f
  trace :: "call list"

datatype outcome = Returned | Raised exn

definition emit :: "call \<Rightarrow> 'f world \<Rightarrow> 'f world" where
  "emit c w = w\<lparr>trace := trace w @ [c]\<rparr>"

definition do_makedirs :: "'f sys \<Rightarrow> string \<Rightarrow> 'f world \<Rightarrow> outcome \<times> 'f world" where
  "do_makedirs sys p w =
     (case os_makedirs sys (fsys w) p of
        Inl e \<Rightarrow> (Raised e, emit (Make_Dirs p) w)
      | Inr f \<Rightarrow> (Returned, (emit (Make_Dirs p) w)\<lparr>fsys := f\<rparr>))"

definition do_move :: "'f sys \<Rightarrow> string \<Rightarrow> string \<Rightarrow> 'f world \<Rightarrow> outcome \<times> 'f world" where
  "do_move sys src dst w =
     (case shutil_move sys (fsys w) src dst of
        Inl e \<Rightarrow> (Raised e, emit (Move_File src dst) w)
      | Inr f \<Rightarrow> (Returned, (emit (Move_File src dst) w)\<lparr>fsys := f\<rparr>))"

definition create_skipped_folder ::
  "config \<Rightarrow> 'f sys \<Rightarrow> 'f world \<Rightarrow> (exn + string) \<times> 'f world" where
  "create_skipped_folder cfg sys w =
     (if \<not> os_path_exists sys (fsys w) (skipped_folder cfg)
      then (case do_makedirs sys (skipped_folder cfg) w of
              (Raised e, w') \<Rightarrow> (Inl e, w')
            | (Returned, w') \<Rightarrow> (Inr (skipped_folder cfg), w'))
      else (Inr (skipped_folder cfg), w))"

definition move_to_skipped ::
  "config \<Rightarrow> 'f sys \<Rightarrow> string \<Rightarrow> string \<Rightarrow> 'f world \<Rightarrow> outcome \<times> 'f world" where
  "move_to_skipped cfg sys file_path reason w =
     (case create_skipped_folder cfg sys w of
        (Inl e, w1) \<Rightarrow> (Raised e, w1)
      | (Inr skipped, w1) \<Rightarrow>
          (let destination = path_join skipped (basename file_path);
               w2 = emit (Say (''Skipping file ('' @ reason @ ''): '' @ basename file_path)) w1
           in do_move sys file_path destination w2))"

text \<open>The loop over \<^verbatim>\<open>exif_data.items()\<close>: the value of the first tag named DateTimeOriginal.\<close>

fun find_date_tag :: "(nat \<Rightarrow> string option) \<Rightarrow> (nat \<times> exif_value) list \<Rightarrow> exif_value option" where
  "find_date_tag tags [] = None"
| "find_date_tag tags ((tag_id, v) # items) =
     (if tags tag_id = Some ''DateTimeOriginal'' then Some v else find_date_tag tags items)"

definition get_image_exif_date ::
  "'f sys \<Rightarrow> string \<Rightarrow> 'f world \<Rightarrow> datetime option \<times> 'f world" where
  "get_image_exif_date sys image_path w =
     (let w1 = emit (Image_Open image_path) w;
          failed = (\<lambda>e. (None,
            emit (Say_Error (''Error reading EXIF from '' @ basename image_path @ '': '') e) w1))
      in case image_getexif sys (fsys w) image_path of
           Exif_Raise e \<Rightarrow> failed e
         | Exif_None \<Rightarrow> (None, w1)
         | Exif_Items items \<Rightarrow>
             (case find_date_tag (pil_TAGS sys) items of
                None \<Rightarrow> (None, w1)
              | Some Exif_Other \<Rightarrow> failed Type_Error
              | Some (Exif_Str v) \<Rightarrow>
                  (case strptime (CHR '':'') v of
                     None \<Rightarrow> failed Value_Error
                   | Some d \<Rightarrow> (Some d, w1))))"

definition get_video_ffprobe_date ::
  "'f sys \<Rightarrow> string \<Rightarrow> 'f world \<Rightarrow> datetime option \<times> 'f world" where
  "get_video_ffprobe_date sys video_path w =
     (let w1 = emit (Ffprobe_Run video_path) w;
          failed = (\<lambda>e. (None,
            emit (Say_Error (''Error using ffprobe on '' @ basename video_path @ '': '') e) w1))
      in case run_ffprobe sys (fsys w) video_path of
           Probe_Raise e \<Rightarrow> failed e
         | Probe_Exit returncode info \<Rightarrow>
             if returncode \<noteq> 0 then (None, w1)
             else (case info of
                     Json_Raise e \<Rightarrow> failed e
                   | Json_Creation None \<Rightarrow> (None, w1)
                   | Json_Creation (Some creation_str) \<Rightarrow>
                       if creation_str = [] then (None, w1)
                       else (case parse_creation_time creation_str of
                               None \<Rightarrow> failed Value_Error
                             | Some d \<Rightarrow> (Some d, w1))))"

text \<open>
  Date resolution of an image (lines 186 to 190) and of a video (lines 214 to 217): the
  metadata reader, then the filename parser on the stem of the basename.
\<close>

definition image_date :: "'f sys \<Rightarrow> string \<Rightarrow> 'f world \<Rightarrow> datetime option \<times> 'f world" where
  "image_date sys file_path w =
     (case get_image_exif_date sys file_path w of
        (Some d, w1) \<Rightarrow> (Some d, w1)
      | (None, w1) \<Rightarrow> (parse_date_from_filename (fst (splitext (basename file_path))), w1))"

definition video_date :: "'f sys \<Rightarrow> string \<Rightarrow> 'f world \<Rightarrow> datetime option \<times> 'f world" where
  "video_date sys file_path w =
     (case get_video_ffprobe_date sys file_path w of
        (Some d, w1) \<Rightarrow> (Some d, w1)
      | (None, w1) \<Rightarrow> (parse_date_from_filename (fst (splitext (basename file_path))), w1))"

text \<open>
  Lines 196 to 205 and 223 to 232 are the same code up to the word in the printed line:
  year folder, target folder, creation of the folder when missing, extension, new name,
  move.
\<close>

definition place_file ::
  "config \<Rightarrow> 'f sys \<Rightarrow> string \<Rightarrow> string \<Rightarrow> datetime \<Rightarrow> 'f world \<Rightarrow> outcome \<times> 'f world" where
  "place_file cfg sys kind file_path date_taken w =
     (let year_folder = strftime_Y date_taken;
          target_folder = path_join (organized_folder cfg) year_folder
      in case (if \<not> os_path_exists sys (fsys w) target_folder
               then do_makedirs sys target_folder w else (Returned, w)) of
           (Raised e, w1) \<Rightarrow> (Raised e, w1)
         | (Returned, w1) \<Rightarrow>
             (let file_ext = snd (splitext file_path);
                  new_file_name = generate_new_file_name date_taken file_ext;
                  w2 = emit (Say (''Organizing '' @ kind @ '': '' @ basename file_path
                                   @ '' -> '' @ new_file_name)) w1
              in do_move sys file_path (path_join target_folder new_file_name) w2))"

definition organize_images ::
  "config \<Rightarrow> 'f sys \<Rightarrow> string \<Rightarrow> 'f world \<Rightarrow> outcome \<times> 'f world" where
  "organize_images cfg sys file_path w =
     (case image_date sys file_path w of
        (None, w1) \<Rightarrow> move_to_skipped cfg sys file_path ''No date from EXIF or filename'' w1
      | (Some date_taken, w1) \<Rightarrow> place_file cfg sys ''image'' file_path date_taken w1)"

definition organize_videos ::
  "config \<Rightarrow> 'f sys \<Rightarrow> string \<Rightarrow> 'f world \<Rightarrow> outcome \<times> 'f world" where
  "organize_videos cfg sys file_path w =
     (case video_date sys file_path w of
        (None, w1) \<Rightarrow> move_to_skipped cfg sys file_path ''No date from ffprobe or filename'' w1
      | (Some date_taken, w1) \<Rightarrow> place_file cfg sys ''video'' file_path date_taken w1)"

definition process_file ::
  "config \<Rightarrow> 'f sys \<Rightarrow> string \<Rightarrow> 'f world \<Rightarrow> outcome \<times> 'f world" where
  "process_file cfg sys file_path w =
     (let lowered = lower file_path;
          w1 = emit (Say (''Processing file: '' @ file_path)) w
      in if list_ex (endswith lowered) image_exts then organize_images cfg sys file_path w1
         else if list_ex (endswith lowered) video_exts then organize_videos cfg sys file_path w1
         else move_to_skipped cfg sys file_path ''Unsupported file type'' w1)"

text \<open>The inner loop of \<^verbatim>\<open>main\<close>: every exception of \<^verbatim>\<open>process_file\<close> is caught and printed.\<close>

fun process_files :: "config \<Rightarrow> 'f sys \<Rightarrow> string \<Rightarrow> string list \<Rightarrow> 'f world \<Rightarrow> 'f world" where
  "process_files cfg sys root [] w = w"
| "process_files cfg sys root (file_name # files) w =
     (let file_path = path_join root file_name
      in if os_path_isfile sys (fsys w) file_path
         then (case process_file cfg sys file_path w of
                 (Returned, w') \<Rightarrow> process_files cfg sys root files w'
               | (Raised e, w') \<Rightarrow>
                   process_files cfg sys root files
                     (emit (Say_Error (''Error processing '' @ [CHR 0x27] @ file_path
                                        @ [CHR 0x27] @ '': '') e) w'))
         else process_files cfg sys root files w)"

text \<open>
  \<^verbatim>\<open>os.walk\<close>, top down: a directory is listed when it is visited, its files are handled,
  then its subdirectories are visited in order, symbolic links excepted. The directories
  still to visit are a stack; the flag of an entry says whether it is the root, which is
  not tested for being a link. The tree of an arbitrary filesystem need not be finite, so
  the walk takes fuel, and \<open>None\<close> says that the fuel ran out.
\<close>

fun walk ::
  "nat \<Rightarrow> config \<Rightarrow> 'f sys \<Rightarrow> (string \<times> bool) list \<Rightarrow> 'f world \<Rightarrow> 'f world option" where
  "walk n cfg sys [] w = Some w"
| "walk 0 cfg sys (entry # stack) w = None"
| "walk (Suc n) cfg sys ((root, is_root) # stack) w =
     (if \<not> is_root \<and> os_path_islink sys (fsys w) root then walk n cfg sys stack w
      else case os_scandir sys (fsys w) root of
             None \<Rightarrow> walk n cfg sys stack w
           | Some (dirs, files) \<Rightarrow>
               (let w1 = emit (Say (CHR 0x0A # ''Now scanning folder: '' @ root)) w;
                    w2 = emit (Say (''  Contains '' @ dec_str (length files) @ '' file(s) and ''
                                     @ dec_str (length dirs) @ '' subfolder(s).'')) w1;
                    w3 = process_files cfg sys root files w2
                in walk n cfg sys (map (\<lambda>d. (path_join root d, False)) dirs @ stack) w3))"

definition main :: "nat \<Rightarrow> config \<Rightarrow> 'f sys \<Rightarrow> 'f world \<Rightarrow> 'f world option" where
  "main fuel cfg sys w =
     (let w1 = emit (Say (''Starting recursive scan in '' @ [CHR 0x27] @ source_folder cfg
                           @ [CHR 0x27])) w
      in case walk fuel cfg sys [(source_folder cfg, True)] w1 of
           None \<Rightarrow> None
         | Some w2 \<Rightarrow> Some (emit (Say (CHR 0x0A # ''Done processing all subfolders!'')) w2))"


definition folder_ready :: "'f sys \<Rightarrow> 'f \<Rightarrow> string \<Rightarrow> bool" where
  "folder_ready sys f p =
     (os_path_exists sys f p \<or> (case os_makedirs sys f p of Inl e \<Rightarrow> False | Inr f' \<Rightarrow> True))"

section \<open>A small filesystem\<close>

text \<open>
  One instance of the collaborators, to run the program on concrete inputs: directories
  and files are lists of paths, the answers of the image library and of the probe tool are
  tables indexed by path (a file without entry cannot be opened as an image, and the probe
  exits with status 1 on it). A path below a regular file can neither be created nor be the
  target of a move: \<open>below_file\<close> says that some regular file is a proper ancestor.
\<close>

record fs_state =
  fs_dirs :: "string list"
  fs_files :: "string list"
  fs_exif :: "(string \<times> exif_read) list"
  fs_probe :: "(string \<times> probe_run) list"

definition child_of :: "string \<Rightarrow> string \<Rightarrow> bool" where
  "child_of p q = (basename q \<noteq> [] \<and> q = path_join p (basename q))"

definition below_file :: "fs_state \<Rightarrow> string \<Rightarrow> bool" where
  "below_file f p = list_ex (\<lambda>q. take (Suc (length q)) p = q @ ''/'') (fs_files f)"

definition small_sys :: "fs_state sys" where
  "small_sys =
     \<lparr>os_path_exists = (\<lambda>f p. p \<in> set (fs_dirs f) \<or> p \<in> set (fs_files f)),
      os_path_isfile = (\<lambda>f p. p \<in> set (fs_files f)),
      os_path_islink = (\<lambda>f p. False),
      os_scandir = (\<lambda>f p. if p \<in> set (fs_dirs f)
         then Some (map basename (filter (child_of p) (fs_dirs f)),
                    map basename (filter (child_of p) (fs_files f)))
         else None),
      os_makedirs = (\<lambda>f p. if p \<in> set (fs_dirs f) \<or> p \<in> set (fs_files f)
         then Inl (Lib_Error ''FileExistsError'')
         else if below_file f p then Inl (Lib_Error ''NotADirectoryError'')
         else Inr (f\<lparr>fs_dirs := fs_dirs f @ [p]\<rparr>)),
      shutil_move = (\<lambda>f src dst. if src \<notin> set (fs_files f)
         then Inl (Lib_Error ''FileNotFoundError'')
         else if below_file f dst then Inl (Lib_Error ''NotADirectoryError'')
         else Inr (f\<lparr>fs_files := map (\<lambda>q. if q = src then dst else q) (fs_files f)\<rparr>)),
      image_getexif = (\<lambda>f p. case map_of (fs_exif f) p of
           Some r \<Rightarrow> r
         | None \<Rightarrow> Exif_Raise (Lib_Error ''cannot identify image file'')),
      run_ffprobe = (\<lambda>f p. case map_of (fs_probe f) p of
           Some r \<Rightarrow> r
         | None \<Rightarrow> Probe_Exit 1 (Json_Creation None)),
      pil_TAGS = (\<lambda>t. if t = 36867 then Some ''DateTimeOriginal'' else None)\<rparr>"

definition small_config :: config where
  "small_config =
     \<lparr>source_folder = ''/media'', organized_folder = ''/organized'',
      skipped_folder = ''/skipped''\<rparr>"

definition small_world ::
  "string list \<Rightarrow> string list \<Rightarrow> (string \<times> exif_read) list \<Rightarrow> (string \<times> probe_run) list
    \<Rightarrow> fs_state world" where
  "small_world ds fs ex pr =
     \<lparr>fsys = \<lparr>fs_dirs = ds, fs_files = fs, fs_exif = ex, fs_probe = pr\<rparr>, trace = []\<rparr>"

section \<open>Properties of the filename parser\<close>

lemmas parser_eval = leftmost_def match_a_def match_b_def slice_def is_digit_def
  parse_date_from_filename_def fields_a_def fields_b_def fields_at_a_def fields_at_b_def
  int_of_digits_def digit_val_def datetime_new_def days_in_month_def is_leap_def
  upt_rec [of _ "numeral _"]

lemma leftmost_0: "leftmost m s 0 = m s"
  by (simp add: leftmost_def)

lemma leftmost_Suc: "leftmost m (c # cs) (Suc i) = (\<not> m (c # cs) \<and> leftmost m cs i)"
proof -
  have "[0..<Suc i] = 0 # map Suc [0..<i]"
    by (simp add: upt_conv_Cons map_Suc_upt del: upt_Suc)
  then have "list_all (\<lambda>j. \<not> m (drop j (c # cs))) [0..<Suc i]
      = (\<not> m (c # cs) \<and> list_all (\<lambda>j. \<not> m (drop j cs)) [0..<i])"
    by (simp add: list.pred_map comp_def del: upt_Suc)
  then show ?thesis
    by (auto simp add: leftmost_def simp del: upt_Suc)
qed

lemma search_a_leftmost:
  "leftmost match_a s i \<Longrightarrow> search_a s = Some (take 8 (drop i s), slice 9 15 (drop i s))"
proof (induction s arbitrary: i)
  case Nil
  then show ?case by (simp add: leftmost_def match_a_def)
next
  case (Cons c cs)
  show ?case
  proof (cases i)
    case 0
    with Cons.prems show ?thesis by (simp add: leftmost_0)
  next
    case (Suc k)
    with Cons.prems have "\<not> match_a (c # cs)" and "leftmost match_a cs k"
      by (simp_all add: leftmost_Suc)
    with Cons.IH [of k] Suc show ?thesis by simp
  qed
qed

lemma search_b_leftmost:
  "leftmost match_b s i \<Longrightarrow> search_b s = Some (take 14 (drop i s))"
proof (induction s arbitrary: i)
  case Nil
  then show ?case by (simp add: leftmost_def match_b_def)
next
  case (Cons c cs)
  show ?case
  proof (cases i)
    case 0
    with Cons.prems show ?thesis by (simp add: leftmost_0)
  next
    case (Suc k)
    with Cons.prems have "\<not> match_b (c # cs)" and "leftmost match_b cs k"
      by (simp_all add: leftmost_Suc)
    with Cons.IH [of k] Suc show ?thesis by simp
  qed
qed

lemma slice_take_drop: "b \<le> n \<Longrightarrow> slice a b (take n (drop i s)) = slice (i + a) (i + b) s"
  by (simp add: slice_def drop_take min_def add.commute)

lemma slice_slice_drop:
  "b \<le> n - m \<Longrightarrow> slice a b (slice m n (drop i s)) = slice (i + m + a) (i + m + b) s"
  by (simp add: slice_def drop_take min_def add.commute add.left_commute)

lemma fields_a_at:
  "fields_a (take 8 (drop i s), slice 9 15 (drop i s)) = fields_at_a s i"
  by (simp add: fields_a_def fields_at_a_def slice_take_drop slice_slice_drop add.commute)

lemma fields_b_at: "fields_b (take 14 (drop i s)) = fields_at_b s i"
  by (simp add: fields_b_def fields_at_b_def slice_take_drop add.commute)

lemma datetime_new_fields:
  "datetime_new y m d H M S = Some t \<Longrightarrow>
   year t = y \<and> month t = m \<and> day t = d \<and> hour t = H \<and> minute t = M \<and> second t = S"
  by (auto simp add: datetime_new_def split: if_splits)

text \<open>
  C1 (amended). When the leftmost occurrence of eight digits, underscore, six digits in the
  filename has fields that form a valid date and time, the parser returns the timestamp
  whose year, month, day, hour, minute and second are exactly the digits of that
  occurrence; the occurrence may start anywhere in the string.
\<close>

theorem parse_pattern_a_leftmost:
  assumes "leftmost match_a filename i"
    and "fields_at_a filename i = Some ts"
  shows "parse_date_from_filename filename = Some ts
    \<and> year ts = int_of_digits (slice i (i + 4) filename)
    \<and> month ts = int_of_digits (slice (i + 4) (i + 6) filename)
    \<and> day ts = int_of_digits (slice (i + 6) (i + 8) filename)
    \<and> hour ts = int_of_digits (slice (i + 9) (i + 11) filename)
    \<and> minute ts = int_of_digits (slice (i + 11) (i + 13) filename)
    \<and> second ts = int_of_digits (slice (i + 13) (i + 15) filename)"
proof -
  have "search_a filename = Some (take 8 (drop i filename), slice 9 15 (drop i filename))"
    using assms(1) by (rule search_a_leftmost)
  then have "parse_date_from_filename filename = Some ts"
    using assms(2) by (simp add: parse_date_from_filename_def fields_a_at)
  moreover note datetime_new_fields [OF assms(2) [unfolded fields_at_a_def]]
  ultimately show ?thesis by simp
qed

theorem parse_pattern_a_leftmost_witness:
  "leftmost match_a ''IMG_0033_20230809_162453'' 9
   \<and> parse_date_from_filename ''IMG_0033_20230809_162453''
       = Some \<lparr>year = 2023, month = 8, day = 9, hour = 16, minute = 24, second = 53\<rparr>"
proof -
  have l: "leftmost match_a ''IMG_0033_20230809_162453'' 9"
    by (simp add: parser_eval)
  have f: "fields_at_a ''IMG_0033_20230809_162453'' 9
      = Some \<lparr>year = 2023, month = 8, day = 9, hour = 16, minute = 24, second = 53\<rparr>"
    by (simp add: parser_eval)
  from parse_pattern_a_leftmost [OF l f] l show ?thesis by simp
qed

text \<open>
  The claim as stated, for any occurrence with valid fields, fails when an earlier
  occurrence has invalid fields: only the leftmost one is tried. Here the occurrence at
  position 16 is valid, the one at position 0 has month 13, and there is no run of fourteen
  digits, so the parser returns nothing.
\<close>

theorem parse_pattern_a_later_match_counterexample:
  "match_a (drop 16 ''20231301_000000_20230809_162453'')
   \<and> fields_at_a ''20231301_000000_20230809_162453'' 16
       = Some \<lparr>year = 2023, month = 8, day = 9, hour = 16, minute = 24, second = 53\<rparr>
   \<and> parse_date_from_filename ''20231301_000000_20230809_162453'' = None"
  by (simp add: parser_eval)

text \<open>
  C4 (amended). When the leftmost 8-digits-underscore-6-digits occurrence has out-of-range
  fields and the leftmost window of fourteen contiguous digits has valid fields, the parser
  falls through to the second pattern and returns the timestamp read from that window.
\<close>

theorem parse_falls_through_to_pattern_b:
  assumes "leftmost match_a filename i"
    and "fields_at_a filename i = None"
    and "leftmost match_b filename k"
    and "fields_at_b filename k = Some ts"
  shows "parse_date_from_filename filename = Some ts
    \<and> year ts = int_of_digits (slice k (k + 4) filename)
    \<and> month ts = int_of_digits (slice (k + 4) (k + 6) filename)
    \<and> day ts = int_of_digits (slice (k + 6) (k + 8) filename)
    \<and> hour ts = int_of_digits (slice (k + 8) (k + 10) filename)
    \<and> minute ts = int_of_digits (slice (k + 10) (k + 12) filename)
    \<and> second ts = int_of_digits (slice (k + 12) (k + 14) filename)"
proof -
  have a: "search_a filename = Some (take 8 (drop i filename), slice 9 15 (drop i filename))"
    using assms(1) by (rule search_a_leftmost)
  have b: "search_b filename = Some (take 14 (drop k filename))"
    using assms(3) by (rule search_b_leftmost)
  have "parse_date_from_filename filename = Some ts"
    using assms(2,4) by (simp add: parse_date_from_filename_def a b fields_a_at fields_b_at)
  moreover note datetime_new_fields [OF assms(4) [unfolded fields_at_b_def]]
  ultimately show ?thesis by simp
qed

theorem parse_falls_through_to_pattern_b_witness:
  "leftmost match_a ''20231301_000000-20230809162453'' 0
   \<and> fields_at_a ''20231301_000000-20230809162453'' 0 = None
   \<and> leftmost match_b ''20231301_000000-20230809162453'' 16
   \<and> parse_date_from_filename ''20231301_000000-20230809162453''
       = Some \<lparr>year = 2023, month = 8, day = 9, hour = 16, minute = 24, second = 53\<rparr>"
proof -
  have 1: "leftmost match_a ''20231301_000000-20230809162453'' 0" by (simp add: parser_eval)
  have 2: "fields_at_a ''20231301_000000-20230809162453'' 0 = None" by (simp add: parser_eval)
  have 3: "leftmost match_b ''20231301_000000-20230809162453'' 16" by (simp add: parser_eval)
  have 4: "fields_at_b ''20231301_000000-20230809162453'' 16
      = Some \<lparr>year = 2023, month = 8, day = 9, hour = 16, minute = 24, second = 53\<rparr>"
    by (simp add: parser_eval)
  from parse_falls_through_to_pattern_b [OF 1 2 3 4] 1 2 3 show ?thesis by simp
qed

text \<open>
  The claim as stated, for any run of fourteen digits with valid fields, fails when an
  earlier window of fourteen digits is invalid: the first pattern fails on month 13, the
  leftmost window of fourteen digits (all nines) is out of range, and the valid run at
  position 31 is never tried.
\<close>

theorem parse_pattern_b_later_run_counterexample:
  "leftmost match_a ''20231301_000000-99999999999999-20230809162453'' 0
   \<and> fields_at_a ''20231301_000000-99999999999999-20230809162453'' 0 = None
   \<and> match_b (drop 31 ''20231301_000000-99999999999999-20230809162453'')
   \<and> fields_at_b ''20231301_000000-99999999999999-20230809162453'' 31
       = Some \<lparr>year = 2023, month = 8, day = 9, hour = 16, minute = 24, second = 53\<rparr>
   \<and> parse_date_from_filename ''20231301_000000-99999999999999-20230809162453'' = None"
  by (simp add: parser_eval)

section \<open>Properties of the generated name\<close>

lemma of_char_digit_char: "of_char (digit_char n) = (48 + n mod 10 :: nat)"
proof -
  define k where "k = n mod 10"
  have "k < 10" by (simp add: k_def)
  then have "k = 0 \<or> k = 1 \<or> k = 2 \<or> k = 3 \<or> k = 4
      \<or> k = 5 \<or> k = 6 \<or> k = 7 \<or> k = 8 \<or> k = 9"
    by presburger
  then have "of_char (''0123456789'' ! k) = (48 + k :: nat)"
    by (elim disjE) simp_all
  then show ?thesis
    by (simp add: digit_char_def k_def)
qed

lemma digit_char_less: "digit_char a < digit_char b \<longleftrightarrow> a mod 10 < b mod 10"
  by (simp add: less_char_def of_char_digit_char)

lemma digit_char_eq: "digit_char a = digit_char b \<longleftrightarrow> a mod 10 = b mod 10"
proof
  assume "digit_char a = digit_char b"
  then have "(of_char (digit_char a) :: nat) = of_char (digit_char b)" by simp
  then show "a mod 10 = b mod 10" by (simp add: of_char_digit_char)
next
  assume "a mod 10 = b mod 10"
  then show "digit_char a = digit_char b" by (simp add: digit_char_def)
qed

lemma is_digit_digit_char: "is_digit (digit_char n)"
  by (simp add: is_digit_def less_eq_char_def of_char_digit_char)


lemma dec_str_1: "n < 10 \<Longrightarrow> dec_str n = [digit_char n]"
  by (simp add: dec_str.simps)

lemma dec_str_2: "10 \<le> n \<Longrightarrow> n < 100 \<Longrightarrow> dec_str n = [digit_char (n div 10), digit_char n]"
  by (subst dec_str.simps) (simp add: dec_str_1 digit_char_def)

lemma dec_str_3:
  "100 \<le> n \<Longrightarrow> n < 1000 \<Longrightarrow> dec_str n = [digit_char (n div 100), digit_char (n div 10), digit_char n]"
  by (subst dec_str.simps) (simp add: dec_str_2 digit_char_def div_mult2_eq [symmetric])

lemma dec_str_4:
  "1000 \<le> n \<Longrightarrow> n < 10000 \<Longrightarrow>
   dec_str n = [digit_char (n div 1000), digit_char (n div 100), digit_char (n div 10), digit_char n]"
  by (subst dec_str.simps) (simp add: dec_str_3 digit_char_def div_mult2_eq [symmetric])

lemma zero_pad_2: "n < 100 \<Longrightarrow> zero_pad 2 n = [digit_char (n div 10), digit_char n]"
  by (cases "n < 10") (simp_all add: zero_pad_def dec_str_1 dec_str_2 digit_char_def)

lemma zero_pad_4:
  assumes "n < 10000"
  shows "zero_pad 4 n = [digit_char (n div 1000), digit_char (n div 100), digit_char (n div 10), digit_char n]"
proof -
  consider "n < 10" | "10 \<le> n" "n < 100" | "100 \<le> n" "n < 1000" | "1000 \<le> n"
    by linarith
  then show ?thesis
  proof cases
    case 1
    then show ?thesis by (simp add: zero_pad_def dec_str_1 digit_char_def numeral_3_eq_3)
  next
    case 2
    then show ?thesis by (simp add: zero_pad_def dec_str_2 digit_char_def numeral_2_eq_2)
  next
    case 3
    then show ?thesis by (simp add: zero_pad_def dec_str_3 digit_char_def)
  next
    case 4
    with assms show ?thesis by (simp add: zero_pad_def dec_str_4)
  qed
qed

lemma digits_less_aux:
  "r < (M::nat) \<Longrightarrow> r' < M \<Longrightarrow> (M * q + r < M * q' + r') = (q < q' \<or> (q = q' \<and> r < r'))"
proof (cases "q < q'")
  case True
  assume r: "r < M" "r' < M"
  from True have "Suc q \<le> q'" by simp
  then have "M * Suc q \<le> M * q'" by (rule mult_le_mono2)
  with r True show ?thesis by simp
next
  case False
  assume r: "r < M" "r' < M"
  show ?thesis
  proof (cases "q = q'")
    case True
    then show ?thesis by simp
  next
    case neq: False
    with False have "Suc q' \<le> q" by simp
    then have "M * Suc q' \<le> M * q" by (rule mult_le_mono2)
    with r False neq show ?thesis by simp
  qed
qed

lemma two_digits_less:
  "(a::nat) < b \<longleftrightarrow> a div 10 < b div 10 \<or> (a div 10 = b div 10 \<and> a mod 10 < b mod 10)"
proof -
  have "(10 * (a div 10) + a mod 10 < 10 * (b div 10) + b mod 10)
      = (a div 10 < b div 10 \<or> (a div 10 = b div 10 \<and> a mod 10 < b mod 10))"
    by (rule digits_less_aux) simp_all
  then show ?thesis by simp
qed

lemma hundreds_less:
  "(a::nat) < b \<longleftrightarrow> a div 100 < b div 100 \<or> (a div 100 = b div 100 \<and> a mod 100 < b mod 100)"
proof -
  have "(100 * (a div 100) + a mod 100 < 100 * (b div 100) + b mod 100)
      = (a div 100 < b div 100 \<or> (a div 100 = b div 100 \<and> a mod 100 < b mod 100))"
    by (rule digits_less_aux) simp_all
  then show ?thesis by simp
qed

lemma two_digits_eq: "(a::nat) = b \<longleftrightarrow> a div 10 = b div 10 \<and> a mod 10 = b mod 10"
  by (metis div_mult_mod_eq)

lemma hundreds_eq: "(a::nat) = b \<longleftrightarrow> a div 100 = b div 100 \<and> a mod 100 = b mod 100"
  by (metis div_mult_mod_eq)

lemma zero_pad_2_less:
  assumes "a < 100" "b < 100"
  shows "zero_pad 2 a @ xs < zero_pad 2 b @ ys \<longleftrightarrow> a < b \<or> (a = b \<and> xs < ys)"
proof -
  have da: "a div 10 mod 10 = a div 10" and db: "b div 10 mod 10 = b div 10"
    using assms by simp_all
  show ?thesis
    unfolding two_digits_less [of a b] two_digits_eq [of a b]
    using assms by (auto simp add: zero_pad_2 digit_char_less digit_char_eq da db)
qed

lemma zero_pad_4_split: "n < 10000 \<Longrightarrow> zero_pad 4 n = zero_pad 2 (n div 100) @ zero_pad 2 (n mod 100)"
proof -
  assume n: "n < 10000"
  have 1: "n div 100 div 10 = n div 1000" by (simp add: div_mult2_eq [symmetric])
  have "n mod (10 * 10) = 10 * (n div 10 mod 10) + n mod 10"
    by (rule mod_mult2_eq)
  then have "n mod 100 div 10 = n div 10 mod 10"
    by simp
  then have 2: "digit_char (n mod 100 div 10) = digit_char (n div 10)"
    by (simp add: digit_char_eq)
  have 3: "digit_char (n mod 100) = digit_char n"
    by (simp add: digit_char_eq mod_mod_cancel)
  from n have "n div 100 < 100" by simp
  then show ?thesis
    using n by (simp add: zero_pad_4 zero_pad_2 1 2 3)
qed

lemma zero_pad_4_less:
  assumes "a < 10000" "b < 10000"
  shows "zero_pad 4 a @ xs < zero_pad 4 b @ ys \<longleftrightarrow> a < b \<or> (a = b \<and> xs < ys)"
proof -
  from assms have d: "a div 100 < 100" "b div 100 < 100" by simp_all
  have m: "a mod 100 < 100" "b mod 100 < 100" by simp_all
  show ?thesis
    unfolding hundreds_less [of a b] hundreds_eq [of a b]
    using assms by (simp add: zero_pad_4_split zero_pad_2_less d m) blast
qed

lemma valid_datetime_bounds:
  assumes "valid_datetime t"
  shows "1 \<le> year t" "year t < 10000" "1 \<le> month t" "month t \<le> 12" "1 \<le> day t" "day t \<le> 31"
    "hour t \<le> 23" "minute t \<le> 59" "second t \<le> 59"
  using assms
  by (auto simp add: valid_datetime_def datetime_new_def days_in_month_def split: if_splits)

lemma dec_str_four_digits: "1000 \<le> n \<Longrightarrow> n < 10000 \<Longrightarrow> dec_str n = zero_pad 4 n"
  by (simp add: zero_pad_4 dec_str_4)

lemma strftime_name_less:
  assumes "valid_datetime a" "valid_datetime b" "1000 \<le> year a" "1000 \<le> year b"
  shows "strftime_name a @ xs < strftime_name b @ ys \<longleftrightarrow> dt_before a b \<or> (a = b \<and> xs < ys)"
proof -
  note va = valid_datetime_bounds [OF assms(1)] and vb = valid_datetime_bounds [OF assms(2)]
  have lt: "year a < 10000" "year b < 10000" "month a < 100" "month b < 100"
    "day a < 100" "day b < 100" "hour a < 100" "hour b < 100"
    "minute a < 100" "minute b < 100" "second a < 100" "second b < 100"
    using va vb by simp_all
  have y: "dec_str (year a) = zero_pad 4 (year a)" "dec_str (year b) = zero_pad 4 (year b)"
    using assms(3,4) lt(1,2) by (simp_all add: dec_str_four_digits)
  have eq: "a = b \<longleftrightarrow> year a = year b \<and> month a = month b \<and> day a = day b
      \<and> hour a = hour b \<and> minute a = minute b \<and> second a = second b"
    by (cases a, cases b) auto
  show ?thesis
    unfolding eq
    by (simp add: strftime_name_def y dt_before_def zero_pad_4_less zero_pad_2_less lt) blast
qed

text \<open>
  For years of four digits the generated name is a monotone embedding of the timestamps:
  chronological order and the lexicographic order of the names agree.
\<close>

lemma generate_new_file_name_monotone_four_digit_years:
  assumes "valid_datetime ts1" and "valid_datetime ts2"
    and "1000 \<le> year ts1" and "1000 \<le> year ts2"
  shows "dt_before ts1 ts2
    \<longleftrightarrow> generate_new_file_name ts1 ext < generate_new_file_name ts2 ext"
  using strftime_name_less [OF assms, of ext ext]
  by (simp add: generate_new_file_name_def)

text \<open>
  C2. The claim wants the generated name to be a monotone embedding of the timestamps for
  all timestamps, through a fixed-width format. The program breaks it below year 1000:
  the filename \<^verbatim>\<open>09991231_235959\<close> resolves to the last second of year 999, whose
  generated name has a year of three digits and sorts after the name of the first second
  of year 1000, although the timestamp is before.
\<close>

theorem generate_new_file_name_not_monotone_below_1000:
  "parse_date_from_filename ''09991231_235959''
     = Some \<lparr>year = 999, month = 12, day = 31, hour = 23, minute = 59, second = 59\<rparr>
   \<and> valid_datetime \<lparr>year = 999, month = 12, day = 31, hour = 23, minute = 59, second = 59\<rparr>
   \<and> valid_datetime \<lparr>year = 1000, month = 1, day = 1, hour = 0, minute = 0, second = 0\<rparr>
   \<and> dt_before \<lparr>year = 999, month = 12, day = 31, hour = 23, minute = 59, second = 59\<rparr>
        \<lparr>year = 1000, month = 1, day = 1, hour = 0, minute = 0, second = 0\<rparr>
   \<and> generate_new_file_name
        \<lparr>year = 999, month = 12, day = 31, hour = 23, minute = 59, second = 59\<rparr> ''.jpg''
       = ''999-12-31 23.59.59.jpg''
   \<and> generate_new_file_name
        \<lparr>year = 1000, month = 1, day = 1, hour = 0, minute = 0, second = 0\<rparr> ''.jpg''
       = ''1000-01-01 00.00.00.jpg''
   \<and> generate_new_file_name
        \<lparr>year = 1000, month = 1, day = 1, hour = 0, minute = 0, second = 0\<rparr> ''.jpg''
     < generate_new_file_name
        \<lparr>year = 999, month = 12, day = 31, hour = 23, minute = 59, second = 59\<rparr> ''.jpg''"
  by (simp add: parser_eval valid_datetime_def dt_before_def generate_new_file_name_def
      strftime_name_def zero_pad_def dec_str.simps digit_char_def)

section \<open>Properties of the video reader's normalisation\<close>


























section \<open>Properties of the placement of files\<close>

lemma fsys_emit: "fsys (emit c w) = fsys w"
  by (simp add: emit_def)

lemma trace_emit: "trace (emit c w) = trace w @ [c]"
  by (simp add: emit_def)

lemma move_to_skipped_trace:
  assumes "folder_ready sys (fsys w) (skipped_folder cfg)"
  shows "trace (snd (move_to_skipped cfg sys p reason w))
    = trace w
      @ (if os_path_exists sys (fsys w) (skipped_folder cfg) then []
         else [Make_Dirs (skipped_folder cfg)])
      @ [Say (''Skipping file ('' @ reason @ ''): '' @ basename p),
         Move_File p (path_join (skipped_folder cfg) (basename p))]"
  using assms
  by (auto simp add: move_to_skipped_def create_skipped_folder_def do_makedirs_def do_move_def
      folder_ready_def fsys_emit trace_emit Let_def split: sum.splits)

lemma place_file_trace:
  assumes "folder_ready sys (fsys w) (path_join (organized_folder cfg) (strftime_Y ts))"
  shows "trace (snd (place_file cfg sys kind p ts w))
    = trace w
      @ (if os_path_exists sys (fsys w) (path_join (organized_folder cfg) (strftime_Y ts)) then []
         else [Make_Dirs (path_join (organized_folder cfg) (strftime_Y ts))])
      @ [Say (''Organizing '' @ kind @ '': '' @ basename p @ '' -> ''
               @ generate_new_file_name ts (snd (splitext p))),
         Move_File p (path_join (path_join (organized_folder cfg) (strftime_Y ts))
                        (generate_new_file_name ts (snd (splitext p))))]"
  using assms
  by (auto simp add: place_file_def do_makedirs_def do_move_def
      folder_ready_def fsys_emit trace_emit Let_def split: sum.splits)





















lemma splitext_concat: "fst (splitext p) @ snd (splitext p) = p"
  by (simp add: splitext_def Let_def split: option.split)


lemmas small_eval = small_sys_def below_file_def small_config_def small_world_def process_file_def
  organize_images_def organize_videos_def image_date_def video_date_def
  get_image_exif_date_def get_video_ffprobe_date_def place_file_def move_to_skipped_def
  create_skipped_folder_def do_makedirs_def do_move_def emit_def folder_ready_def
  lower_def lower_char_def upper_letters_def lower_letters_def endswith_def image_exts_def
  video_exts_def
  basename_def splitext_def path_join_def strftime_Y_def strftime_name_def
  generate_new_file_name_def zero_pad_def dec_str.simps digit_char_def Let_def

lemma dec_str_digits: "list_all is_digit (dec_str n)"
proof (induction n rule: dec_str.induct)
  case (1 n)
  show ?case
  proof (cases "n < 10")
    case True
    then show ?thesis by (simp add: dec_str_1 is_digit_digit_char)
  next
    case False
    with 1 have "list_all is_digit (dec_str (n div 10))" by simp
    with False show ?thesis
      by (subst dec_str.simps) (simp add: is_digit_digit_char)
  qed
qed

lemma dec_str_nonempty: "dec_str n \<noteq> []"
  by (subst dec_str.simps) simp

lemma zero_pad_digits: "list_all is_digit (zero_pad w n)"
proof -
  have "is_digit (CHR ''0'')" by (simp add: is_digit_def)
  then have "list_all is_digit (replicate k (CHR ''0''))" for k
    by (simp add: list_all_iff)
  then show ?thesis
    by (simp add: zero_pad_def dec_str_digits)
qed

lemma zero_pad_nonempty: "zero_pad w n \<noteq> []"
  by (simp add: zero_pad_def dec_str_nonempty)











text \<open>
  C10. The destination of a skipped file is the skip folder joined with the basename of the
  path, whatever the parent directory: two paths with the same basename are moved to the
  same destination.
\<close>

theorem skipped_destination_depends_on_basename:
  assumes "basename p1 = basename p2"
    and "folder_ready sys (fsys w1) (skipped_folder cfg)"
    and "folder_ready sys (fsys w2) (skipped_folder cfg)"
  shows "last (trace (snd (move_to_skipped cfg sys p1 reason1 w1)))
           = Move_File p1 (path_join (skipped_folder cfg) (basename p1))
       \<and> last (trace (snd (move_to_skipped cfg sys p2 reason2 w2)))
           = Move_File p2 (path_join (skipped_folder cfg) (basename p1))"
  using move_to_skipped_trace [OF assms(2), of p1 reason1]
    move_to_skipped_trace [OF assms(3), of p2 reason2] assms(1)
  by simp

theorem skipped_destination_depends_on_basename_witness:
  "basename ''/media/a/x.txt'' = basename ''/media/b/x.txt''
   \<and> ''/media/a/x.txt'' \<noteq> ''/media/b/x.txt''
   \<and> folder_ready small_sys
        (fsys (small_world [''/media''] [''/media/a/x.txt'', ''/media/b/x.txt''] [] []))
        (skipped_folder small_config)
   \<and> last (trace (snd (move_to_skipped small_config small_sys ''/media/a/x.txt''
        ''Unsupported file type''
        (small_world [''/media''] [''/media/a/x.txt'', ''/media/b/x.txt''] [] []))))
      = Move_File ''/media/a/x.txt'' ''/skipped/x.txt''
   \<and> last (trace (snd (move_to_skipped small_config small_sys ''/media/b/x.txt''
        ''Unsupported file type''
        (small_world [''/media''] [''/media/a/x.txt'', ''/media/b/x.txt''] [] []))))
      = Move_File ''/media/b/x.txt'' ''/skipped/x.txt''"
proof -
  let ?w = "small_world [''/media''] [''/media/a/x.txt'', ''/media/b/x.txt''] [] []"
  have b: "basename ''/media/a/x.txt'' = basename ''/media/b/x.txt''"
    by (simp add: basename_def)
  have r: "folder_ready small_sys (fsys ?w) (skipped_folder small_config)"
    by (simp add: small_eval)
  have d: "path_join (skipped_folder small_config) (basename ''/media/a/x.txt'')
      = ''/skipped/x.txt''"
    by (simp add: small_config_def basename_def path_join_def)
  from skipped_destination_depends_on_basename [OF b r r,
      of "''Unsupported file type''" "''Unsupported file type''"] b r
  show ?thesis
    unfolding d by simp
qed




text \<open>
  C7 (amended). The path is lower-cased only to choose the branch of \<^verbatim>\<open>process_file\<close>.
  The extension appended to the generated name is the second component of
  \<^verbatim>\<open>os.path.splitext\<close> of the original path, a suffix of that path exactly as it is
  written.
\<close>

theorem extension_kept_as_written:
  assumes "folder_ready sys (fsys w) (path_join (organized_folder cfg) (strftime_Y ts))"
  shows "last (trace (snd (place_file cfg sys kind p ts w)))
           = Move_File p (path_join (path_join (organized_folder cfg) (strftime_Y ts))
                            (strftime_name ts @ snd (splitext p)))
       \<and> endswith p (snd (splitext p))"
proof
  from place_file_trace [OF assms, of kind p]
  show "last (trace (snd (place_file cfg sys kind p ts w)))
      = Move_File p (path_join (path_join (organized_folder cfg) (strftime_Y ts))
                       (strftime_name ts @ snd (splitext p)))"
    by (simp add: generate_new_file_name_def)
  have "endswith (a @ b) b" for a b :: string
    by (simp add: endswith_def)
  from this [of "fst (splitext p)" "snd (splitext p)"]
  show "endswith p (snd (splitext p))"
    by (simp only: splitext_concat)
qed

theorem extension_kept_as_written_witness:
  "folder_ready small_sys
     (fsys (small_world [''/media''] [''/media/IMG_20230809_162453.JPG'']
        [(''/media/IMG_20230809_162453.JPG'', Exif_None)] []))
     (path_join (organized_folder small_config)
        (strftime_Y \<lparr>year = 2023, month = 8, day = 9, hour = 16, minute = 24, second = 53\<rparr>))
   \<and> last (trace (snd (place_file small_config small_sys ''image''
        ''/media/IMG_20230809_162453.JPG''
        \<lparr>year = 2023, month = 8, day = 9, hour = 16, minute = 24, second = 53\<rparr>
        (small_world [''/media''] [''/media/IMG_20230809_162453.JPG'']
           [(''/media/IMG_20230809_162453.JPG'', Exif_None)] []))))
      = Move_File ''/media/IMG_20230809_162453.JPG'' ''/organized/2023/2023-08-09 16.24.53.JPG''
   \<and> endswith ''/media/IMG_20230809_162453.JPG'' ''.JPG''"
proof -
  let ?ts = "\<lparr>year = 2023, month = 8, day = 9, hour = 16, minute = 24, second = 53\<rparr>"
  let ?w = "small_world [''/media''] [''/media/IMG_20230809_162453.JPG'']
        [(''/media/IMG_20230809_162453.JPG'', Exif_None)] []"
  have r: "folder_ready small_sys (fsys ?w)
      (path_join (organized_folder small_config) (strftime_Y ?ts))"
    by (simp add: small_eval)
  have x: "snd (splitext ''/media/IMG_20230809_162453.JPG'') = ''.JPG''"
    by (simp add: splitext_def upt_rec [of _ "numeral _"])
  have d: "path_join (path_join (organized_folder small_config) (strftime_Y ?ts))
        (strftime_name ?ts @ ''.JPG'')
      = ''/organized/2023/2023-08-09 16.24.53.JPG''"
    by (simp add: small_eval)
  from extension_kept_as_written [OF r, of "''image''" "''/media/IMG_20230809_162453.JPG''"] r
  show ?thesis
    unfolding x d by simp
qed

text \<open>
  The claim as stated fails on a file with an upper-case extension: it is classified as an
  image through the lower-cased path, and the name it is moved to ends with \<^verbatim>\<open>.JPG\<close>, not
  with the lower-cased extension \<^verbatim>\<open>.jpg\<close>.
\<close>

theorem extension_lower_cased_counterexample:
  "snd (splitext ''/media/IMG_20230809_162453.JPG'') = ''.JPG''
   \<and> lower ''.JPG'' = ''.jpg''
   \<and> last (trace (snd (process_file small_config small_sys ''/media/IMG_20230809_162453.JPG''
        (small_world [''/media''] [''/media/IMG_20230809_162453.JPG'']
           [(''/media/IMG_20230809_162453.JPG'', Exif_None)] []))))
      = Move_File ''/media/IMG_20230809_162453.JPG'' ''/organized/2023/2023-08-09 16.24.53.JPG''"
  by (simp add: small_eval parser_eval)

text \<open>
  C3 (amended). The program makes no check of the source root. When the root cannot be
  listed (it does not exist), the traversal visits nothing: the run prints its first and
  its last line, makes no other call, leaves the filesystem as it is, and completes
  normally, for every amount of fuel above zero.
\<close>

theorem missing_source_root_completes:
  assumes "os_scandir sys (fsys w) (source_folder cfg) = None"
  shows "main (Suc n) cfg sys w
    = Some (w\<lparr>trace := trace w
        @ [Say (''Starting recursive scan in '' @ [CHR 0x27] @ source_folder cfg @ [CHR 0x27]),
           Say (CHR 0x0A # ''Done processing all subfolders!'')]\<rparr>)"
  using assms by (simp add: main_def Let_def emit_def)

theorem missing_source_root_completes_witness:
  "os_scandir small_sys (fsys (small_world [] [] [] [])) (source_folder small_config) = None
   \<and> main (Suc 0) small_config small_sys (small_world [] [] [] [])
     = Some ((small_world [] [] [] [])\<lparr>trace :=
         [Say (''Starting recursive scan in '' @ [CHR 0x27] @ ''/media'' @ [CHR 0x27]),
          Say (CHR 0x0A # ''Done processing all subfolders!'')]\<rparr>)"
proof -
  have s: "os_scandir small_sys (fsys (small_world [] [] [] [])) (source_folder small_config)
      = None"
    by (simp add: small_sys_def small_world_def small_config_def)
  from missing_source_root_completes [OF s, of 0] s show ?thesis
    by (simp add: small_world_def small_config_def)
qed

text \<open>
  The claim as stated fails: on a filesystem without the source root the run is not
  aborted and reports no error; it returns with the two informational lines only.
\<close>

theorem missing_source_root_counterexample:
  "\<not> os_path_exists small_sys (fsys (small_world [] [] [] [])) (source_folder small_config)
   \<and> main 1 small_config small_sys (small_world [] [] [] [])
     = Some \<lparr>fsys = \<lparr>fs_dirs = [], fs_files = [], fs_exif = [], fs_probe = []\<rparr>,
             trace = [Say (''Starting recursive scan in '' @ [CHR 0x27] @ ''/media'' @ [CHR 0x27]),
                      Say (CHR 0x0A # ''Done processing all subfolders!'')]\<rparr>"
  by (simp add: main_def small_sys_def small_world_def small_config_def emit_def Let_def)


end
